theory Spec2Isabelle
  imports Main
begin

section \<open>Values of the Go program\<close>

text \<open>
  The package \<open>sloghandler\<close> implements \<open>slog.Handler\<close> by the struct
  \<open>LogFormatHandler\<close>. Handlers are heap objects reached through pointers, their
  attribute lists are Go slices over shared backing arrays, and each handler struct embeds
  its mutex by value. The model keeps all of this in an explicit store. Calls are run one
  after the other, each on the store the previous one left; a call that would wait for a
  lock that is held never returns.
\<close>

type_synonym addr = nat

text \<open>Go errors: \<open>errors.New(msg)\<close> and the result of \<open>fmt.Errorf\<close> with the verb \<open>%w\<close>,
  which carries its message and the error it wraps.\<close>

datatype go_error = ErrorString string | WrapError string go_error

fun Error :: "go_error \<Rightarrow> string" where
  "Error (ErrorString m) = m"
| "Error (WrapError m _) = m"


definition Errorf_w :: "string \<Rightarrow> go_error \<Rightarrow> go_error" where
  \<comment> \<open>\<open>fmt.Errorf(prefix + "%w", err)\<close>\<close>
  "Errorf_w prefix err = WrapError (prefix @ Error err) err"

text \<open>How a call ends: it returns, it waits for a lock for ever, or the runtime stops the
  program (nil dereference, unlock of an unlocked mutex).\<close>

datatype 'a outcome = Returns 'a | Blocks | Panics

fun outcome_bind :: "'a outcome \<Rightarrow> ('a \<Rightarrow> 'b outcome) \<Rightarrow> 'b outcome" where
  "outcome_bind (Returns x) f = f x"
| "outcome_bind Blocks f = Blocks"
| "outcome_bind Panics f = Panics"

text \<open>\<open>slog.Attr\<close> and \<open>slog.Record\<close>. The value type \<open>'v\<close> and the time type \<open>'t\<close> stay
  abstract; the record's attributes are the sequence that \<open>r.Attrs\<close> visits.\<close>

record 'v Attr =
  Key :: string
  Value :: 'v

record ('t, 'v) Record =
  Time :: 't
  Message :: string
  Level :: int
  RecAttrs :: "'v Attr list"

fun Record_Attrs :: "('v Attr \<Rightarrow> 'b \<Rightarrow> bool \<times> 'b) \<Rightarrow> 'v Attr list \<Rightarrow> 'b \<Rightarrow> 'b" where
  \<comment> \<open>\<open>r.Attrs(f)\<close>: calls \<open>f\<close> on each attribute in order and stops when \<open>f\<close> returns false;
      the second component threads the variables the closure captures\<close>
  "Record_Attrs f [] b = b"
| "Record_Attrs f (a # as) b =
     (case f a b of (True, b') \<Rightarrow> Record_Attrs f as b' | (False, b') \<Rightarrow> b')"

text \<open>What the program takes from the Go standard library and runtime. These functions are
  not part of the repository, so every result below holds for any behaviour of them.\<close>

record ('t, 'v, 'd) golang =
  time_Format :: "'t \<Rightarrow> string \<Rightarrow> string"
  level_String :: "int \<Rightarrow> string"
  strings_ToUpper :: "string \<Rightarrow> string"
  value_String :: "'v \<Rightarrow> string"
  writer_Write :: "'d \<Rightarrow> string \<Rightarrow> 'd \<times> nat \<times> go_error option"
  append_newcap :: "nat \<Rightarrow> nat \<Rightarrow> nat"

text \<open>
  \<^item> \<open>time_Format t layout\<close> is \<open>t.Format(layout)\<close>;
  \<^item> \<open>level_String l\<close> is \<open>l.String()\<close> of \<open>slog.Level\<close>;
  \<^item> \<open>value_String v\<close> is the text the verb \<open>%v\<close> prints for a \<open>slog.Value\<close>;
  \<^item> \<open>writer_Write d p\<close> is \<open>Write(p)\<close> of the \<open>io.Writer\<close> in state \<open>d\<close>: the new state, the
    byte count and the error;
  \<^item> \<open>append_newcap oldCap newLen\<close> is the capacity the runtime picks when \<open>append\<close> has to
    grow a slice.
\<close>

definition DefaultTimeFormat :: string where
  "DefaultTimeFormat = ''2006/01/02 15:04:05''"

definition LF :: char where
  "LF = CHR 0x0A"

section \<open>Mutexes, slices and the store\<close>

record RWMutex =
  w_held :: bool
  r_count :: nat

definition RWMutex_zero :: RWMutex where
  "RWMutex_zero = \<lparr>w_held = False, r_count = 0\<rparr>"

definition Lock :: "RWMutex \<Rightarrow> RWMutex option" where
  \<comment> \<open>\<open>None\<close>: the caller has to wait\<close>
  "Lock m = (if w_held m \<or> 0 < r_count m then None else Some (m\<lparr>w_held := True\<rparr>))"

definition Unlock :: "RWMutex \<Rightarrow> RWMutex option" where
  \<comment> \<open>\<open>None\<close>: fatal error, unlock of an unlocked mutex\<close>
  "Unlock m = (if w_held m then Some (m\<lparr>w_held := False\<rparr>) else None)"

definition RLock :: "RWMutex \<Rightarrow> RWMutex option" where
  "RLock m = (if w_held m then None else Some (m\<lparr>r_count := Suc (r_count m)\<rparr>))"

definition RUnlock :: "RWMutex \<Rightarrow> RWMutex option" where
  "RUnlock m = (if 0 < r_count m then Some (m\<lparr>r_count := r_count m - 1\<rparr>) else None)"

text \<open>A slice header. The nil slice has length and capacity 0. Every slice of this program
  starts at index 0 of its backing array.\<close>

record slice =
  ptr :: addr
  len :: nat
  cap :: nat

definition nil_slice :: slice where
  "nil_slice = \<lparr>ptr = 0, len = 0, cap = 0\<rparr>"

record LogFormatHandler =
  level :: int
  writer :: addr
  attrs :: slice
  group :: string
  timeFormat :: string
  mu :: RWMutex

datatype event =
  EvLock addr | EvUnlock addr | EvRLock addr | EvRUnlock addr | EvWrite addr string

text \<open>The store: handler structs by address, the written part of each backing array by
  address, the state of each destination, the next free address, and the history of lock
  operations and writes.\<close>

record ('h, 'v, 'd) world =
  handlers :: "addr \<rightharpoonup> 'h"
  arrays :: "addr \<Rightarrow> 'v Attr list"
  dests :: "addr \<Rightarrow> 'd"
  nxt :: addr
  trace :: "event list"

definition world0 :: "(addr \<Rightarrow> 'd) \<Rightarrow> ('h, 'v, 'd) world" where
  "world0 ds = \<lparr>handlers = Map.empty, arrays = (\<lambda>_. []), dests = ds, nxt = 1, trace = []\<rparr>"

definition slice_elems :: "('h, 'v, 'd) world \<Rightarrow> slice \<Rightarrow> 'v Attr list" where
  \<comment> \<open>the elements a \<open>range\<close> loop over the slice visits\<close>
  "slice_elems s sl = take (len sl) (arrays s (ptr sl))"

definition go_append ::
  "('t, 'v, 'd) golang \<Rightarrow> slice \<Rightarrow> 'v Attr list \<Rightarrow> ('h, 'v, 'd) world
    \<Rightarrow> slice \<times> ('h, 'v, 'd) world" where
  \<comment> \<open>\<open>append(sl, xs...)\<close>: with enough capacity the new elements are stored in the backing
      array of \<open>sl\<close>, right after its length; otherwise a new array is allocated\<close>
  "go_append rt sl xs s =
     (let n = len sl + length xs in
      if n \<le> cap sl then
        (let a = arrays s (ptr sl) in
         (sl\<lparr>len := n\<rparr>,
          s\<lparr>arrays := (arrays s)(ptr sl := take (len sl) a @ xs @ drop n a)\<rparr>))
      else
        (let p = nxt s; c = max n (append_newcap rt (cap sl) n) in
         (\<lparr>ptr = p, len = n, cap = c\<rparr>,
          s\<lparr>arrays := (arrays s)(p := slice_elems s sl @ xs), nxt := Suc p\<rparr>)))"

section \<open>The handler of \<open>log.go\<close>\<close>

definition WriteString :: "string \<Rightarrow> string \<Rightarrow> string" where
  \<comment> \<open>\<open>buf.WriteString(s)\<close> on a \<open>bytes.Buffer\<close>\<close>
  "WriteString buf s = buf @ s"

definition Sprintf_kv :: "('t, 'v, 'd) golang \<Rightarrow> 'v Attr \<Rightarrow> string" where
  \<comment> \<open>\<open>fmt.Sprintf(" %s=%v", a.Key, a.Value)\<close>\<close>
  "Sprintf_kv rt a = '' '' @ Key a @ ''='' @ value_String rt (Value a)"

definition Handle_buf ::
  "('t, 'v, 'd) golang \<Rightarrow> LogFormatHandler \<Rightarrow> 'v Attr list \<Rightarrow> ('t, 'v) Record \<Rightarrow> string" where
  \<comment> \<open>the buffer that \<open>Handle\<close> builds; \<open>hattrs\<close> are the elements of \<open>h.attrs\<close>\<close>
  "Handle_buf rt h hattrs r =
     (let buf = [];
          buf = WriteString buf (time_Format rt (Time r) (timeFormat h));
          buf = WriteString buf '' '';
          buf = WriteString buf (strings_ToUpper rt (level_String rt (Level r)));
          buf = WriteString buf '' '';
          buf = (if group h \<noteq> [] then
                   (let buf = WriteString buf ''['';
                        buf = WriteString buf (group h)
                    in WriteString buf ''] '')
                 else buf);
          buf = WriteString buf (Message r);
          buf = Record_Attrs
                  (\<lambda>a buf. (True, if Key a \<noteq> [] then WriteString buf (Sprintf_kv rt a) else buf))
                  (RecAttrs r) buf;
          buf = fold (\<lambda>attr buf. if Key attr \<noteq> [] then WriteString buf (Sprintf_kv rt attr) else buf)
                  hattrs buf
      in WriteString buf [LF])"

definition mu_Lock :: "addr \<Rightarrow> (LogFormatHandler, 'v, 'd) world \<Rightarrow> (LogFormatHandler, 'v, 'd) world outcome" where
  \<comment> \<open>\<open>h.mu.Lock()\<close>\<close>
  "mu_Lock h s =
     (case handlers s h of
        None \<Rightarrow> Panics
      | Some hv \<Rightarrow>
          (case Lock (mu hv) of
             None \<Rightarrow> Blocks
           | Some m \<Rightarrow> Returns (s\<lparr>handlers := (handlers s)(h \<mapsto> hv\<lparr>mu := m\<rparr>),
                                  trace := trace s @ [EvLock h]\<rparr>)))"

definition mu_Unlock :: "addr \<Rightarrow> (LogFormatHandler, 'v, 'd) world \<Rightarrow> (LogFormatHandler, 'v, 'd) world outcome" where
  \<comment> \<open>\<open>h.mu.Unlock()\<close>\<close>
  "mu_Unlock h s =
     (case handlers s h of
        None \<Rightarrow> Panics
      | Some hv \<Rightarrow>
          (case Unlock (mu hv) of
             None \<Rightarrow> Panics
           | Some m \<Rightarrow> Returns (s\<lparr>handlers := (handlers s)(h \<mapsto> hv\<lparr>mu := m\<rparr>),
                                  trace := trace s @ [EvUnlock h]\<rparr>)))"

definition mu_RLock :: "addr \<Rightarrow> (LogFormatHandler, 'v, 'd) world \<Rightarrow> (LogFormatHandler, 'v, 'd) world outcome" where
  \<comment> \<open>\<open>h.mu.RLock()\<close>\<close>
  "mu_RLock h s =
     (case handlers s h of
        None \<Rightarrow> Panics
      | Some hv \<Rightarrow>
          (case RLock (mu hv) of
             None \<Rightarrow> Blocks
           | Some m \<Rightarrow> Returns (s\<lparr>handlers := (handlers s)(h \<mapsto> hv\<lparr>mu := m\<rparr>),
                                  trace := trace s @ [EvRLock h]\<rparr>)))"

definition mu_RUnlock :: "addr \<Rightarrow> (LogFormatHandler, 'v, 'd) world \<Rightarrow> (LogFormatHandler, 'v, 'd) world outcome" where
  \<comment> \<open>\<open>h.mu.RUnlock()\<close>\<close>
  "mu_RUnlock h s =
     (case handlers s h of
        None \<Rightarrow> Panics
      | Some hv \<Rightarrow>
          (case RUnlock (mu hv) of
             None \<Rightarrow> Panics
           | Some m \<Rightarrow> Returns (s\<lparr>handlers := (handlers s)(h \<mapsto> hv\<lparr>mu := m\<rparr>),
                                  trace := trace s @ [EvRUnlock h]\<rparr>)))"

definition writer_call ::
  "('t, 'v, 'd) golang \<Rightarrow> addr \<Rightarrow> string \<Rightarrow> ('h, 'v, 'd) world
    \<Rightarrow> go_error option \<times> ('h, 'v, 'd) world" where
  \<comment> \<open>\<open>_, err := w.Write(p)\<close>: the byte count is dropped\<close>
  "writer_call rt w p s =
     (case writer_Write rt (dests s w) p of
        (d, n, err) \<Rightarrow> (err, s\<lparr>dests := (dests s)(w := d), trace := trace s @ [EvWrite w p]\<rparr>))"

definition Handle ::
  "('t, 'v, 'd) golang \<Rightarrow> 'c \<Rightarrow> addr \<Rightarrow> ('t, 'v) Record \<Rightarrow> (LogFormatHandler, 'v, 'd) world
    \<Rightarrow> (go_error option \<times> (LogFormatHandler, 'v, 'd) world) outcome" where
  "Handle rt ctx h r s =
     (case handlers s h of
        None \<Rightarrow> Panics
      | Some hv \<Rightarrow>
          if Level r < level hv then Returns (None, s)
          else
            (let buf = Handle_buf rt hv (slice_elems s (attrs hv)) r in
             outcome_bind (mu_Lock h s) (\<lambda>s1.
               case writer_call rt (writer hv) buf s1 of
                 (err, s2) \<Rightarrow>
                   outcome_bind (mu_Unlock h s2) (\<lambda>s3.
                     case err of
                       Some e \<Rightarrow> Returns (Some (Errorf_w ''failed to write log: '' e), s3)
                     | None \<Rightarrow> Returns (None, s3)))))"

definition Enabled ::
  "'c \<Rightarrow> addr \<Rightarrow> int \<Rightarrow> (LogFormatHandler, 'v, 'd) world
    \<Rightarrow> (bool \<times> (LogFormatHandler, 'v, 'd) world) outcome" where
  "Enabled ctx h lvl s =
     outcome_bind (mu_RLock h s) (\<lambda>s1.
       case handlers s1 h of
         None \<Rightarrow> Panics
       | Some hv \<Rightarrow>
           outcome_bind (mu_RUnlock h s1) (\<lambda>s2. Returns (level hv \<le> lvl, s2)))"

definition alloc_handler :: "'h \<Rightarrow> ('h, 'v, 'd) world \<Rightarrow> addr \<times> ('h, 'v, 'd) world" where
  \<comment> \<open>\<open>&T{...}\<close>: a new struct at a fresh address\<close>
  "alloc_handler hv s = (nxt s, s\<lparr>handlers := (handlers s)(nxt s \<mapsto> hv), nxt := Suc (nxt s)\<rparr>)"

definition WithAttrs ::
  "('t, 'v, 'd) golang \<Rightarrow> addr \<Rightarrow> 'v Attr list \<Rightarrow> (LogFormatHandler, 'v, 'd) world
    \<Rightarrow> (addr \<times> (LogFormatHandler, 'v, 'd) world) outcome" where
  "WithAttrs rt h as s =
     (case handlers s h of
        None \<Rightarrow> Panics
      | Some hv \<Rightarrow>
          (case go_append rt (attrs hv) as s of
             (newAttrs, s1) \<Rightarrow>
               Returns (alloc_handler
                 \<lparr>level = level hv, writer = writer hv, attrs = newAttrs, group = group hv,
                  timeFormat = timeFormat hv, mu = mu hv\<rparr> s1)))"

definition WithGroup ::
  "addr \<Rightarrow> string \<Rightarrow> (LogFormatHandler, 'v, 'd) world
    \<Rightarrow> (addr \<times> (LogFormatHandler, 'v, 'd) world) outcome" where
  "WithGroup h name s =
     (case handlers s h of
        None \<Rightarrow> Panics
      | Some hv \<Rightarrow>
          Returns (alloc_handler
            \<lparr>level = level hv, writer = writer hv, attrs = attrs hv, group = name,
             timeFormat = timeFormat hv, mu = mu hv\<rparr> s))"

definition NewLogFormatHandler ::
  "int \<Rightarrow> addr \<Rightarrow> string \<Rightarrow> (LogFormatHandler, 'v, 'd) world
    \<Rightarrow> addr \<times> (LogFormatHandler, 'v, 'd) world" where
  "NewLogFormatHandler lvl w tfmt s =
     (let tfmt = (if tfmt = [] then DefaultTimeFormat else tfmt) in
      alloc_handler
        \<lparr>level = lvl, writer = w, attrs = nil_slice, group = [],
         timeFormat = tfmt, mu = RWMutex_zero\<rparr> s)"

section \<open>The second variant of the handler\<close>

text \<open>The source holds a second \<open>LogFormatHandler\<close>: no time format field, a \<open>sync.Mutex\<close>,
  a fixed layout in \<open>Handle\<close>, and no test on the keys of the attributes.\<close>

record Mutex =
  m_held :: bool

definition Mutex_zero :: Mutex where
  "Mutex_zero = \<lparr>m_held = False\<rparr>"

definition Mutex_Lock :: "Mutex \<Rightarrow> Mutex option" where
  "Mutex_Lock m = (if m_held m then None else Some (m\<lparr>m_held := True\<rparr>))"

definition Mutex_Unlock :: "Mutex \<Rightarrow> Mutex option" where
  "Mutex_Unlock m = (if m_held m then Some (m\<lparr>m_held := False\<rparr>) else None)"

record LogFormatHandler_v2 =
  level_v2 :: int
  writer_v2 :: addr
  attrs_v2 :: slice
  group_v2 :: string
  mu_v2 :: Mutex

definition Sprintf_kv_v2 :: "('t, 'v, 'd) golang \<Rightarrow> 'v Attr \<Rightarrow> string" where
  "Sprintf_kv_v2 rt a = '' '' @ Key a @ ''='' @ value_String rt (Value a)"

definition Handle_buf_v2 ::
  "('t, 'v, 'd) golang \<Rightarrow> LogFormatHandler_v2 \<Rightarrow> 'v Attr list \<Rightarrow> ('t, 'v) Record \<Rightarrow> string" where
  "Handle_buf_v2 rt h hattrs r =
     (let buf = [];
          buf = WriteString buf (time_Format rt (Time r) ''2006/01/02 15:04:05'');
          buf = WriteString buf '' '';
          buf = WriteString buf (strings_ToUpper rt (level_String rt (Level r)));
          buf = WriteString buf '' '';
          buf = (if group_v2 h \<noteq> [] then
                   (let buf = WriteString buf ''['';
                        buf = WriteString buf (group_v2 h)
                    in WriteString buf ''] '')
                 else buf);
          buf = WriteString buf (Message r);
          buf = Record_Attrs (\<lambda>a buf. (True, WriteString buf (Sprintf_kv_v2 rt a))) (RecAttrs r) buf;
          buf = fold (\<lambda>attr buf. WriteString buf (Sprintf_kv_v2 rt attr)) hattrs buf
      in WriteString buf [LF])"

definition mu_Lock_v2 ::
  "addr \<Rightarrow> (LogFormatHandler_v2, 'v, 'd) world \<Rightarrow> (LogFormatHandler_v2, 'v, 'd) world outcome" where
  "mu_Lock_v2 h s =
     (case handlers s h of
        None \<Rightarrow> Panics
      | Some hv \<Rightarrow>
          (case Mutex_Lock (mu_v2 hv) of
             None \<Rightarrow> Blocks
           | Some m \<Rightarrow> Returns (s\<lparr>handlers := (handlers s)(h \<mapsto> hv\<lparr>mu_v2 := m\<rparr>),
                                  trace := trace s @ [EvLock h]\<rparr>)))"

definition mu_Unlock_v2 ::
  "addr \<Rightarrow> (LogFormatHandler_v2, 'v, 'd) world \<Rightarrow> (LogFormatHandler_v2, 'v, 'd) world outcome" where
  "mu_Unlock_v2 h s =
     (case handlers s h of
        None \<Rightarrow> Panics
      | Some hv \<Rightarrow>
          (case Mutex_Unlock (mu_v2 hv) of
             None \<Rightarrow> Panics
           | Some m \<Rightarrow> Returns (s\<lparr>handlers := (handlers s)(h \<mapsto> hv\<lparr>mu_v2 := m\<rparr>),
                                  trace := trace s @ [EvUnlock h]\<rparr>)))"

definition Handle_v2 ::
  "('t, 'v, 'd) golang \<Rightarrow> 'c \<Rightarrow> addr \<Rightarrow> ('t, 'v) Record \<Rightarrow> (LogFormatHandler_v2, 'v, 'd) world
    \<Rightarrow> (go_error option \<times> (LogFormatHandler_v2, 'v, 'd) world) outcome" where
  "Handle_v2 rt ctx h r s =
     (case handlers s h of
        None \<Rightarrow> Panics
      | Some hv \<Rightarrow>
          if Level r < level_v2 hv then Returns (None, s)
          else
            (let buf = Handle_buf_v2 rt hv (slice_elems s (attrs_v2 hv)) r in
             outcome_bind (mu_Lock_v2 h s) (\<lambda>s1.
               case writer_call rt (writer_v2 hv) buf s1 of
                 (err, s2) \<Rightarrow>
                   outcome_bind (mu_Unlock_v2 h s2) (\<lambda>s3.
                     case err of
                       Some e \<Rightarrow> Returns (Some (Errorf_w ''failed to write log: '' e), s3)
                     | None \<Rightarrow> Returns (None, s3)))))"

definition Enabled_v2 ::
  "'c \<Rightarrow> addr \<Rightarrow> int \<Rightarrow> (LogFormatHandler_v2, 'v, 'd) world \<Rightarrow> bool outcome" where
  "Enabled_v2 ctx h lvl s =
     (case handlers s h of None \<Rightarrow> Panics | Some hv \<Rightarrow> Returns (level_v2 hv \<le> lvl))"

definition WithAttrs_v2 ::
  "('t, 'v, 'd) golang \<Rightarrow> addr \<Rightarrow> 'v Attr list \<Rightarrow> (LogFormatHandler_v2, 'v, 'd) world
    \<Rightarrow> (addr \<times> (LogFormatHandler_v2, 'v, 'd) world) outcome" where
  "WithAttrs_v2 rt h as s =
     (case handlers s h of
        None \<Rightarrow> Panics
      | Some hv \<Rightarrow>
          (case go_append rt (attrs_v2 hv) as s of
             (newAttrs, s1) \<Rightarrow>
               Returns (alloc_handler
                 \<lparr>level_v2 = level_v2 hv, writer_v2 = writer_v2 hv, attrs_v2 = newAttrs,
                  group_v2 = group_v2 hv, mu_v2 = Mutex_zero\<rparr> s1)))"

definition WithGroup_v2 ::
  "addr \<Rightarrow> string \<Rightarrow> (LogFormatHandler_v2, 'v, 'd) world
    \<Rightarrow> (addr \<times> (LogFormatHandler_v2, 'v, 'd) world) outcome" where
  "WithGroup_v2 h name s =
     (case handlers s h of
        None \<Rightarrow> Panics
      | Some hv \<Rightarrow>
          Returns (alloc_handler
            \<lparr>level_v2 = level_v2 hv, writer_v2 = writer_v2 hv, attrs_v2 = attrs_v2 hv,
             group_v2 = name, mu_v2 = Mutex_zero\<rparr> s))"

definition NewLogFormatHandler_v2 ::
  "int \<Rightarrow> addr \<Rightarrow> (LogFormatHandler_v2, 'v, 'd) world
    \<Rightarrow> addr \<times> (LogFormatHandler_v2, 'v, 'd) world" where
  \<comment> \<open>\<open>[]slog.Attr{}\<close> is an empty slice of capacity 0\<close>
  "NewLogFormatHandler_v2 lvl w s =
     alloc_handler
       \<lparr>level_v2 = lvl, writer_v2 = w, attrs_v2 = \<lparr>ptr = 0, len = 0, cap = 0\<rparr>,
        group_v2 = [], mu_v2 = Mutex_zero\<rparr> s"

section \<open>The line layout in closed form, and well-formed stores\<close>

definition nonempty_key :: "'v Attr \<Rightarrow> bool" where
  "nonempty_key a \<longleftrightarrow> Key a \<noteq> []"

definition spec_line ::
  "('t, 'v, 'd) golang \<Rightarrow> string \<Rightarrow> string \<Rightarrow> ('t, 'v) Record \<Rightarrow> 'v Attr list \<Rightarrow> string" where
  \<comment> \<open>the layout of the specification: timestamp, level, optional group tag, message, then
      the attributes \<open>as\<close>, each as \<open>" key=value"\<close>\<close>
  "spec_line rt tfmt grp r as =
     time_Format rt (Time r) tfmt @ '' '' @
     strings_ToUpper rt (level_String rt (Level r)) @ '' '' @
     (if grp = [] then [] else ''['' @ grp @ ''] '') @
     Message r @
     concat (map (\<lambda>a. '' '' @ Key a @ ''='' @ value_String rt (Value a)) as)"

definition one_line :: "string \<Rightarrow> bool" where
  \<comment> \<open>exactly one line: the only line feed is the last byte\<close>
  "one_line l \<longleftrightarrow> l \<noteq> [] \<and> last l = LF \<and> LF \<notin> set (butlast l)"

definition no_LF :: "string \<Rightarrow> bool" where
  "no_LF x \<longleftrightarrow> LF \<notin> set x"


definition mu_free :: "LogFormatHandler \<Rightarrow> bool" where
  "mu_free hv \<longleftrightarrow> \<not> w_held (mu hv) \<and> r_count (mu hv) = 0"

definition wf_slice :: "('h, 'v, 'd) world \<Rightarrow> slice \<Rightarrow> bool" where
  "wf_slice s sl \<longleftrightarrow> ptr sl < nxt s \<and> len sl \<le> length (arrays s (ptr sl))"

definition wf_world :: "(LogFormatHandler, 'v, 'd) world \<Rightarrow> bool" where
  \<comment> \<open>address 0 is nil; every handler is allocated, its mutex is free and its slice lies
      within the written part of an allocated array\<close>
  "wf_world s \<longleftrightarrow>
     0 < nxt s \<and>
     (\<forall>h hv. handlers s h = Some hv \<longrightarrow> h < nxt s \<and> mu_free hv \<and> wf_slice s (attrs hv))"

section \<open>An executable instance of the library functions\<close>

text \<open>Concrete library behaviour for evaluating the handler on examples: \<open>slog.Level.String\<close>,
  \<open>strings.ToUpper\<close> on ASCII, three kinds of \<open>slog.Value\<close>, a \<open>bytes.Buffer\<close> and a writer that
  always fails as destinations, and the growth rule of the Go runtime for \<open>append\<close>
  (without the rounding to allocation size classes).\<close>

definition digit :: "nat \<Rightarrow> char" where
  "digit n = ''0123456789'' ! (n mod 10)"

fun show_nat :: "nat \<Rightarrow> string" where
  "show_nat n = (if n < 10 then [digit n] else show_nat (n div 10) @ [digit n])"

declare show_nat.simps [simp del]

definition Sprintf_plus_d :: "int \<Rightarrow> string" where
  \<comment> \<open>the verb \<open>%+d\<close>\<close>
  "Sprintf_plus_d i = (if 0 \<le> i then ''+'' else ''-'') @ show_nat (nat \<bar>i\<bar>)"

definition Sprintf_d :: "int \<Rightarrow> string" where
  "Sprintf_d i = (if 0 \<le> i then [] else ''-'') @ show_nat (nat \<bar>i\<bar>)"

definition LevelDebug :: int where "LevelDebug = - 4"
definition LevelInfo :: int where "LevelInfo = 0"
definition LevelWarn :: int where "LevelWarn = 4"
definition LevelError :: int where "LevelError = 8"

definition Level_str :: "string \<Rightarrow> int \<Rightarrow> string" where
  "Level_str base val = (if val = 0 then base else base @ Sprintf_plus_d val)"

definition slog_Level_String :: "int \<Rightarrow> string" where
  "slog_Level_String l =
     (if l < LevelInfo then Level_str ''DEBUG'' (l - LevelDebug)
      else if l < LevelWarn then Level_str ''INFO'' (l - LevelInfo)
      else if l < LevelError then Level_str ''WARN'' (l - LevelWarn)
      else Level_str ''ERROR'' (l - LevelError))"

definition ascii_upper :: "char \<Rightarrow> char" where
  "ascii_upper c =
     (let n = (of_char c :: nat) in if 97 \<le> n \<and> n \<le> 122 then char_of (n - 32) else c)"

definition ascii_ToUpper :: "string \<Rightarrow> string" where
  "ascii_ToUpper s = map ascii_upper s"

datatype slog_Value = StringValue string | Int64Value int | BoolValue bool

fun slog_Value_String :: "slog_Value \<Rightarrow> string" where
  "slog_Value_String (StringValue s) = s"
| "slog_Value_String (Int64Value i) = Sprintf_d i"
| "slog_Value_String (BoolValue b) = (if b then ''true'' else ''false'')"

datatype dest = Buffer string | Broken go_error

fun dest_Write :: "dest \<Rightarrow> string \<Rightarrow> dest \<times> nat \<times> go_error option" where
  "dest_Write (Buffer b) p = (Buffer (b @ p), length p, None)"
| "dest_Write (Broken e) p = (Broken e, 0, Some e)"

function nextslicecap_loop :: "nat \<Rightarrow> nat \<Rightarrow> nat" where
  "nextslicecap_loop newcap newLen =
     (let newcap = newcap + (newcap + 3 * 256) div 4
      in if newLen \<le> newcap then newcap else nextslicecap_loop newcap newLen)"
  by pat_completeness auto
termination
  by (relation "measure (\<lambda>(newcap, newLen). newLen - newcap)") (auto simp: Let_def)

declare nextslicecap_loop.simps [simp del]

definition nextslicecap :: "nat \<Rightarrow> nat \<Rightarrow> nat" where
  "nextslicecap oldCap newLen =
     (let doublecap = oldCap + oldCap in
      if doublecap < newLen then newLen
      else if oldCap < 256 then doublecap
      else nextslicecap_loop oldCap newLen)"

definition go_rt :: "(string, slog_Value, dest) golang" where
  \<comment> \<open>a time value is given by the text its \<open>Format\<close> prints\<close>
  "go_rt = \<lparr>time_Format = (\<lambda>t layout. t), level_String = slog_Level_String,
            strings_ToUpper = ascii_ToUpper, value_String = slog_Value_String,
            writer_Write = dest_Write, append_newcap = nextslicecap\<rparr>"

text \<open>Values built as the tests of the package build them: \<open>slog.String\<close>, \<open>slog.Int\<close>,
  \<open>slog.NewRecord\<close>, and a root handler of level Info writing to the buffer at address 7.\<close>

definition buffers :: "addr \<Rightarrow> dest" where
  "buffers = (\<lambda>_. Buffer [])"

definition slog_String :: "string \<Rightarrow> string \<Rightarrow> slog_Value Attr" where
  "slog_String k v = \<lparr>Key = k, Value = StringValue v\<rparr>"

definition slog_Int :: "string \<Rightarrow> int \<Rightarrow> slog_Value Attr" where
  "slog_Int k i = \<lparr>Key = k, Value = Int64Value i\<rparr>"

definition NewRecord :: "'t \<Rightarrow> int \<Rightarrow> string \<Rightarrow> ('t, 'v) Record" where
  "NewRecord t l msg = \<lparr>Time = t, Message = msg, Level = l, RecAttrs = []\<rparr>"

definition AddAttrs :: "('t, 'v) Record \<Rightarrow> 'v Attr list \<Rightarrow> ('t, 'v) Record" where
  "AddAttrs r as = r\<lparr>RecAttrs := RecAttrs r @ as\<rparr>"

definition info_handler :: LogFormatHandler where
  "info_handler = \<lparr>level = 0, writer = 7, attrs = nil_slice, group = [],
     timeFormat = ''2006/01/02 15:04:05'', mu = RWMutex_zero\<rparr>"

definition info_world :: "(LogFormatHandler, slog_Value, dest) world" where
  "info_world = snd (NewLogFormatHandler LevelInfo 7 [] (world0 buffers))"



definition info_world_v2 :: "(LogFormatHandler_v2, slog_Value, dest) world" where
  "info_world_v2 = snd (NewLogFormatHandler_v2 LevelInfo 7 (world0 buffers))"

definition test_record :: "(string, slog_Value) Record" where
  "test_record = AddAttrs (NewRecord ''2025/01/11 12:00:00'' LevelError ''Error occurred'')
     [slog_String ''key'' ''value'', slog_Int ''code'' 123]"

definition cex_record :: "(string, slog_Value) Record" where
  \<comment> \<open>a message of two lines and an attribute with an empty key\<close>
  "cex_record = AddAttrs (NewRecord ''T'' LevelInfo ''a\<newline>b'') [slog_String [] ''v'']"

definition empty_key_record :: "(string, slog_Value) Record" where
  "empty_key_record =
     AddAttrs (NewRecord ''2025/01/11 12:00:00'' LevelInfo ''Test message'') [slog_String [] ''v'']"

definition plain_record :: "(string, slog_Value) Record" where
  "plain_record = NewRecord ''T'' LevelInfo ''m''"

section \<open>The buffer of \<open>Handle\<close> in closed form\<close>

lemma Record_Attrs_all:
  "Record_Attrs (\<lambda>a b. (True, g a b)) as b = fold g as b"
  by (induction as arbitrary: b) simp_all

lemma fold_WriteString_keys:
  "fold (\<lambda>a b. if Key a \<noteq> [] then WriteString b (f a) else b) as b =
     b @ concat (map f (filter nonempty_key as))"
  by (induction as arbitrary: b) (simp_all add: WriteString_def nonempty_key_def)

lemma fold_WriteString_all:
  "fold (\<lambda>a b. WriteString b (f a)) as b = b @ concat (map f as)"
  by (induction as arbitrary: b) (simp_all add: WriteString_def)

lemma Handle_buf_closed:
  "Handle_buf rt hv hattrs r =
     spec_line rt (timeFormat hv) (group hv) r (filter nonempty_key (RecAttrs r @ hattrs)) @ [LF]"
  unfolding Handle_buf_def Let_def Record_Attrs_all fold_WriteString_keys
  by (simp add: spec_line_def Sprintf_kv_def[abs_def] WriteString_def)

lemma Handle_buf_v2_closed:
  "Handle_buf_v2 rt hv hattrs r =
     spec_line rt ''2006/01/02 15:04:05'' (group_v2 hv) r (RecAttrs r @ hattrs) @ [LF]"
  unfolding Handle_buf_v2_def Let_def Record_Attrs_all fold_WriteString_all
  by (simp add: spec_line_def Sprintf_kv_v2_def[abs_def] WriteString_def)

lemma Handle_buf_skips_empty_keys:
  "Handle_buf rt hv hattrs r =
     Handle_buf rt hv (filter nonempty_key hattrs) (r\<lparr>RecAttrs := filter nonempty_key (RecAttrs r)\<rparr>)"
  by (simp add: Handle_buf_closed spec_line_def)

lemma one_line_snoc: "one_line (body @ [LF]) \<longleftrightarrow> no_LF body"
  by (simp add: one_line_def no_LF_def)

lemma no_LF_append [simp]: "no_LF (x @ y) \<longleftrightarrow> no_LF x \<and> no_LF y"
  by (auto simp: no_LF_def)

lemma no_LF_Cons [simp]: "no_LF (c # x) \<longleftrightarrow> c \<noteq> LF \<and> no_LF x"
  by (auto simp: no_LF_def)

lemma no_LF_Nil [simp]: "no_LF []"
  by (simp add: no_LF_def)

lemma no_LF_concat: "no_LF (concat xs) \<longleftrightarrow> (\<forall>x \<in> set xs. no_LF x)"
  by (induction xs) simp_all

lemma no_LF_spec_line:
  assumes "no_LF (time_Format rt (Time r) tfmt)"
    and "no_LF (strings_ToUpper rt (level_String rt (Level r)))"
    and "no_LF grp" and "no_LF (Message r)"
    and "\<forall>a \<in> set as. no_LF (Key a) \<and> no_LF (value_String rt (Value a))"
  shows "no_LF (spec_line rt tfmt grp r as)"
  using assms by (simp add: spec_line_def no_LF_concat LF_def)

section \<open>What the calls do on a handler whose mutex is free\<close>

lemma Handle_admitted:
  assumes "handlers s h = Some hv" and "mu_free hv" and "level hv \<le> Level r"
  shows "Handle rt ctx h r s =
     (case writer_Write rt (dests s (writer hv)) (Handle_buf rt hv (slice_elems s (attrs hv)) r) of
        (d, n, err) \<Rightarrow>
          Returns (map_option (Errorf_w ''failed to write log: '') err,
            s\<lparr>dests := (dests s)(writer hv := d),
              trace := trace s @ [EvLock h,
                 EvWrite (writer hv) (Handle_buf rt hv (slice_elems s (attrs hv)) r), EvUnlock h]\<rparr>))"
proof -
  have m: "hv\<lparr>mu := (mu hv)\<lparr>w_held := False\<rparr>\<rparr> = hv"
    using assms(2) by (simp add: mu_free_def)
  have hs: "(handlers s)(h \<mapsto> hv) = handlers s"
    using assms(1) by (simp add: map_upd_triv)
  show ?thesis
    using assms
    by (simp add: Handle_def mu_Lock_def mu_Unlock_def Lock_def Unlock_def mu_free_def
        writer_call_def Let_def m hs split: prod.splits option.splits)
qed

lemma Handle_v2_admitted:
  assumes "handlers s h = Some hv" and "\<not> m_held (mu_v2 hv)" and "level_v2 hv \<le> Level r"
  shows "Handle_v2 rt ctx h r s =
     (case writer_Write rt (dests s (writer_v2 hv))
             (Handle_buf_v2 rt hv (slice_elems s (attrs_v2 hv)) r) of
        (d, n, err) \<Rightarrow>
          Returns (map_option (Errorf_w ''failed to write log: '') err,
            s\<lparr>dests := (dests s)(writer_v2 hv := d),
              trace := trace s @ [EvLock h,
                 EvWrite (writer_v2 hv) (Handle_buf_v2 rt hv (slice_elems s (attrs_v2 hv)) r),
                 EvUnlock h]\<rparr>))"
proof -
  have m: "hv\<lparr>mu_v2 := (mu_v2 hv)\<lparr>m_held := False\<rparr>\<rparr> = hv"
    using assms(2) by simp
  have hs: "(handlers s)(h \<mapsto> hv) = handlers s"
    using assms(1) by (simp add: map_upd_triv)
  show ?thesis
    using assms
    by (simp add: Handle_v2_def mu_Lock_v2_def mu_Unlock_v2_def Mutex_Lock_def Mutex_Unlock_def
        writer_call_def Let_def m hs split: prod.splits option.splits)
qed

lemma Handle_blocks_when_locked:
  assumes "handlers s h = Some hv" and "w_held (mu hv)" and "level hv \<le> Level r"
  shows "Handle rt ctx h r s = Blocks"
  using assms by (simp add: Handle_def mu_Lock_def Lock_def Let_def)

lemma Enabled_unlocked:
  assumes "handlers s h = Some hv" and "\<not> w_held (mu hv)"
  shows "Enabled ctx h lvl s =
           Returns (level hv \<le> lvl, s\<lparr>trace := trace s @ [EvRLock h, EvRUnlock h]\<rparr>)"
proof -
  have hs: "(handlers s)(h \<mapsto> hv) = handlers s"
    using assms(1) by (simp add: map_upd_triv)
  show ?thesis
    using assms
    by (simp add: Enabled_def mu_RLock_def mu_RUnlock_def RLock_def RUnlock_def hs)
qed





lemma WithAttrs_unfold:
  assumes "WithAttrs rt h as s = Returns (c, s')"
  obtains hv sl' s1 where "handlers s h = Some hv"
    and "go_append rt (attrs hv) as s = (sl', s1)"
    and "c = nxt s1"
    and "s' = s1\<lparr>handlers := (handlers s1)(nxt s1 \<mapsto>
                 \<lparr>level = level hv, writer = writer hv, attrs = sl', group = group hv,
                  timeFormat = timeFormat hv, mu = mu hv\<rparr>), nxt := Suc (nxt s1)\<rparr>"
  using assms
  by (auto simp: WithAttrs_def alloc_handler_def split: option.splits prod.splits)

section \<open>Well-formed stores\<close>

text \<open>The store before any call is well formed, and every call that returns keeps it so:
  in a run of calls made one after the other, every handler is allocated, its mutex is
  free between calls, and its slice lies within the written part of its array.\<close>

lemma wf_world0: "wf_world (world0 ds)"
  by (simp add: wf_world_def world0_def)

lemma wf_worldD:
  "wf_world s \<Longrightarrow> handlers s h = Some hv \<Longrightarrow> h < nxt s \<and> mu_free hv \<and> wf_slice s (attrs hv)"
  by (simp add: wf_world_def)

lemma wf_alloc:
  assumes "wf_world s" and "mu_free hv" and "wf_slice s (attrs hv)"
  shows "wf_world (snd (alloc_handler hv s))"
  unfolding wf_world_def
proof (rule conjI)
  show "0 < nxt (snd (alloc_handler hv s))"
    by (simp add: alloc_handler_def)
  show "\<forall>g gv. handlers (snd (alloc_handler hv s)) g = Some gv \<longrightarrow>
          g < nxt (snd (alloc_handler hv s)) \<and> mu_free gv
          \<and> wf_slice (snd (alloc_handler hv s)) (attrs gv)"
  proof (intro allI impI)
    fix g gv assume g: "handlers (snd (alloc_handler hv s)) g = Some gv"
    show "g < nxt (snd (alloc_handler hv s)) \<and> mu_free gv
            \<and> wf_slice (snd (alloc_handler hv s)) (attrs gv)"
    proof (cases "g = nxt s")
      case True
      then show ?thesis
        using g assms(2,3) by (auto simp: alloc_handler_def wf_slice_def)
    next
      case False
      then have "handlers s g = Some gv"
        using g by (simp add: alloc_handler_def)
      from wf_worldD [OF assms(1) this] show ?thesis
        by (auto simp: alloc_handler_def wf_slice_def)
    qed
  qed
qed

lemma wf_NewLogFormatHandler:
  assumes "wf_world s" and "NewLogFormatHandler lvl w tfmt s = (p, s')"
  shows "wf_world s'"
proof -
  have "s' = snd (alloc_handler
                 \<lparr>level = lvl, writer = w, attrs = nil_slice, group = [],
                  timeFormat = (if tfmt = [] then DefaultTimeFormat else tfmt),
                  mu = RWMutex_zero\<rparr> s)"
    using assms(2) by (auto simp: NewLogFormatHandler_def Let_def)
  then show ?thesis
    using wf_alloc [OF assms(1), of "\<lparr>level = lvl, writer = w, attrs = nil_slice, group = [],
                  timeFormat = (if tfmt = [] then DefaultTimeFormat else tfmt),
                  mu = RWMutex_zero\<rparr>"]
    using assms(1) by (simp add: mu_free_def RWMutex_zero_def wf_slice_def nil_slice_def wf_world_def)
qed

lemma wf_WithGroup:
  assumes "wf_world s" and "WithGroup h name s = Returns (c, s')"
  shows "wf_world s'"
proof -
  from assms(2) obtain hv where hv: "handlers s h = Some hv"
    and s': "s' = snd (alloc_handler
                 \<lparr>level = level hv, writer = writer hv, attrs = attrs hv, group = name,
                  timeFormat = timeFormat hv, mu = mu hv\<rparr> s)"
    by (auto simp: WithGroup_def split: option.splits)
  from wf_worldD [OF assms(1) hv] show ?thesis
    unfolding s' by (intro wf_alloc [OF assms(1)]) (simp_all add: mu_free_def)
qed

lemma go_append_wf:
  assumes "go_append rt sl xs s = (sl', s')" and "wf_slice s sl"
  shows "wf_slice s' sl'" and "nxt s \<le> nxt s'" and "handlers s' = handlers s"
    and "q < nxt s \<Longrightarrow> length (arrays s q) \<le> length (arrays s' q)"
  using assms
  by (auto simp: go_append_def Let_def wf_slice_def slice_elems_def split: if_splits)

lemma wf_go_append:
  assumes "wf_world s" and "go_append rt sl xs s = (sl', s')" and "wf_slice s sl"
  shows "wf_world s'"
  unfolding wf_world_def
proof (rule conjI)
  show "0 < nxt s'"
    using assms(1) go_append_wf(2) [OF assms(2,3)] by (simp add: wf_world_def)
  show "\<forall>g gv. handlers s' g = Some gv \<longrightarrow> g < nxt s' \<and> mu_free gv \<and> wf_slice s' (attrs gv)"
  proof (intro allI impI)
    fix g gv assume "handlers s' g = Some gv"
    then have g: "handlers s g = Some gv"
      using go_append_wf(3) [OF assms(2,3)] by simp
    from wf_worldD [OF assms(1) g]
    show "g < nxt s' \<and> mu_free gv \<and> wf_slice s' (attrs gv)"
      using go_append_wf(2) [OF assms(2,3)] go_append_wf(4) [OF assms(2,3), of "ptr (attrs gv)"]
      by (auto simp: wf_slice_def)
  qed
qed

lemma wf_WithAttrs:
  assumes "wf_world s" and "WithAttrs rt h as s = Returns (c, s')"
  shows "wf_world s'"
proof -
  from assms(2) obtain hv sl' s1 where hv: "handlers s h = Some hv"
    and ap: "go_append rt (attrs hv) as s = (sl', s1)"
    and s': "s' = snd (alloc_handler
                 \<lparr>level = level hv, writer = writer hv, attrs = sl', group = group hv,
                  timeFormat = timeFormat hv, mu = mu hv\<rparr> s1)"
    by (auto simp: WithAttrs_def split: option.splits prod.splits)
  from wf_worldD [OF assms(1) hv] have f: "mu_free hv" and w: "wf_slice s (attrs hv)"
    by simp_all
  show ?thesis
    unfolding s'
    using f go_append_wf(1) [OF ap w]
    by (intro wf_alloc wf_go_append [OF assms(1) ap w]) (simp_all add: mu_free_def)
qed

lemma wf_Handle:
  assumes "wf_world s" and "Handle rt ctx h r s = Returns (res, s')"
  shows "wf_world s'"
proof (cases "handlers s h")
  case None
  then show ?thesis using assms(2) by (simp add: Handle_def)
next
  case (Some hv)
  then have f: "mu_free hv" using assms(1) by (auto simp: wf_world_def)
  show ?thesis
  proof (cases "level hv \<le> Level r")
    case True
    show ?thesis
      using assms Handle_admitted [OF Some f True, of rt ctx]
      by (auto simp: wf_world_def wf_slice_def split: prod.splits)
  next
    case False
    then show ?thesis
      using assms Some by (simp add: Handle_def)
  qed
qed

lemma wf_Enabled:
  assumes "wf_world s" and "Enabled ctx h lvl s = Returns (b, s')"
  shows "wf_world s'"
proof (cases "handlers s h")
  case None
  then show ?thesis using assms(2) by (simp add: Enabled_def mu_RLock_def)
next
  case (Some hv)
  then have f: "\<not> w_held (mu hv)" using assms(1) by (auto simp: wf_world_def mu_free_def)
  show ?thesis
    using assms Enabled_unlocked [OF Some f, of ctx lvl]
    by (auto simp: wf_world_def wf_slice_def)
qed

section \<open>The examples evaluated\<close>

lemma go_rt_fields:
  "writer_Write go_rt = dest_Write" "append_newcap go_rt = nextslicecap"
  "value_String go_rt = slog_Value_String"
  by (simp_all add: go_rt_def)

lemma slog_Level_String_named:
  "slog_Level_String LevelDebug = ''DEBUG''" "slog_Level_String LevelInfo = ''INFO''"
  "slog_Level_String LevelWarn = ''WARN''" "slog_Level_String LevelError = ''ERROR''"
  by (simp_all add: slog_Level_String_def Level_str_def LevelDebug_def LevelInfo_def
      LevelWarn_def LevelError_def)

lemma ascii_ToUpper_named:
  "ascii_ToUpper ''DEBUG'' = ''DEBUG''" "ascii_ToUpper ''INFO'' = ''INFO''"
  "ascii_ToUpper ''WARN'' = ''WARN''" "ascii_ToUpper ''ERROR'' = ''ERROR''"
  by (simp_all add: ascii_ToUpper_def ascii_upper_def)

lemma info_world_handler: "handlers info_world 1 = Some info_handler"
  by (simp add: info_world_def NewLogFormatHandler_def alloc_handler_def world0_def
      info_handler_def DefaultTimeFormat_def LevelInfo_def)

lemma info_handler_free: "mu_free info_handler"
  by (simp add: info_handler_def mu_free_def RWMutex_zero_def)

lemma info_world_attrs: "slice_elems info_world (attrs info_handler) = []"
  by (simp add: slice_elems_def info_handler_def nil_slice_def)

lemma info_world_dest: "dests info_world 7 = Buffer []"
  by (simp add: info_world_def NewLogFormatHandler_def alloc_handler_def world0_def buffers_def)


lemma info_world_v2_handler:
  "handlers info_world_v2 1 =
     Some \<lparr>level_v2 = 0, writer_v2 = 7, attrs_v2 = \<lparr>ptr = 0, len = 0, cap = 0\<rparr>,
           group_v2 = [], mu_v2 = Mutex_zero\<rparr>"
  by (simp add: info_world_v2_def NewLogFormatHandler_v2_def alloc_handler_def world0_def
      LevelInfo_def)

lemma plain_record_Level: "Level plain_record = 0"
  by (simp add: plain_record_def NewRecord_def LevelInfo_def)

lemma plain_line:
  "Handle_buf go_rt hv as plain_record =
     ''T INFO '' @ (if group hv = [] then [] else ''['' @ group hv @ ''] '') @ ''m'' @
     concat (map (Sprintf_kv go_rt) (filter nonempty_key as)) @ [LF]"
  by (simp add: Handle_buf_closed spec_line_def plain_record_def NewRecord_def go_rt_def
      slog_Level_String_named ascii_ToUpper_named Sprintf_kv_def[abs_def])

lemma plain_line_v2:
  "Handle_buf_v2 go_rt hv as plain_record =
     ''T INFO '' @ (if group_v2 hv = [] then [] else ''['' @ group_v2 hv @ ''] '') @ ''m'' @
     concat (map (Sprintf_kv_v2 go_rt) as) @ [LF]"
  by (simp add: Handle_buf_v2_closed spec_line_def plain_record_def NewRecord_def go_rt_def
      slog_Level_String_named ascii_ToUpper_named Sprintf_kv_v2_def[abs_def])

lemma test_record_admitted: "level info_handler \<le> Level test_record"
  by (simp add: info_handler_def test_record_def AddAttrs_def NewRecord_def LevelError_def)

lemma test_record_line:
  "Handle_buf go_rt info_handler [] test_record
     = ''2025/01/11 12:00:00 ERROR Error occurred key=value code=123\<newline>''"
  by (simp add: Handle_buf_closed spec_line_def test_record_def AddAttrs_def NewRecord_def
      go_rt_def info_handler_def slog_String_def slog_Int_def nonempty_key_def
      slog_Level_String_named ascii_ToUpper_named Sprintf_d_def show_nat.simps digit_def LF_def)

lemma test_record_spec_line:
  "spec_line go_rt (timeFormat info_handler) (group info_handler) test_record
     (filter nonempty_key (RecAttrs test_record @ slice_elems info_world (attrs info_handler)))
   = ''2025/01/11 12:00:00 ERROR Error occurred key=value code=123''"
  using test_record_line by (simp add: Handle_buf_closed info_world_attrs)

lemma cex_record_admitted: "level info_handler \<le> Level cex_record"
  by (simp add: info_handler_def cex_record_def AddAttrs_def NewRecord_def LevelInfo_def)

lemma cex_record_line:
  "Handle_buf go_rt info_handler [] cex_record = ''T INFO a\<newline>b\<newline>''"
  by (simp add: Handle_buf_closed spec_line_def cex_record_def AddAttrs_def NewRecord_def
      go_rt_def info_handler_def slog_String_def nonempty_key_def
      slog_Level_String_named ascii_ToUpper_named LF_def)

section \<open>Derivation and the attribute slices\<close>

text \<open>What \<open>append\<close> does to the views of the handlers. The handler derived sees the
  attributes of its parent followed by the new ones. No handler whose slice is at most as
  long as the slice of the parent changes its view; this covers the parent itself. A
  handler with a longer slice on the same array is not protected: when the parent has
  spare capacity, two derivations from it store their new attributes in the same cells.\<close>

lemma go_append_elems:
  assumes "go_append rt sl xs s = (sl', s')" and "wf_slice s sl"
  shows "slice_elems s' sl' = slice_elems s sl @ xs"
  using assms
  by (auto simp: go_append_def Let_def wf_slice_def slice_elems_def split: if_splits)

lemma go_append_keeps_shorter:
  assumes "go_append rt sl xs s = (sl', s')" and "wf_slice s sl" and "wf_slice s sl2"
    and "len sl2 \<le> len sl"
  shows "slice_elems s' sl2 = slice_elems s sl2"
  using assms
  by (auto simp: go_append_def Let_def wf_slice_def slice_elems_def split: if_splits)

lemma go_append_in_place:
  assumes "len sl + length xs \<le> cap sl"
  shows "go_append rt sl xs s =
           (sl\<lparr>len := len sl + length xs\<rparr>,
            s\<lparr>arrays := (arrays s)(ptr sl :=
                 take (len sl) (arrays s (ptr sl)) @ xs @
                 drop (len sl + length xs) (arrays s (ptr sl)))\<rparr>)"
  using assms by (simp add: go_append_def Let_def)

lemma WithAttrs_child:
  assumes "wf_world s" and "handlers s h = Some hv" and "WithAttrs rt h as s = Returns (c, s')"
  shows "\<exists>cv. handlers s' c = Some cv \<and> c \<noteq> h
           \<and> slice_elems s' (attrs cv) = slice_elems s (attrs hv) @ as
           \<and> level cv = level hv \<and> writer cv = writer hv \<and> group cv = group hv
           \<and> timeFormat cv = timeFormat hv"
proof -
  from assms(3) obtain hv' sl' s1 where hv': "handlers s h = Some hv'"
    and ap: "go_append rt (attrs hv') as s = (sl', s1)"
    and c: "c = nxt s1"
    and s': "s' = s1\<lparr>handlers := (handlers s1)(nxt s1 \<mapsto>
                 \<lparr>level = level hv', writer = writer hv', attrs = sl', group = group hv',
                  timeFormat = timeFormat hv', mu = mu hv'\<rparr>), nxt := Suc (nxt s1)\<rparr>"
    by (rule WithAttrs_unfold)
  have e: "hv' = hv" using hv' assms(2) by simp
  from wf_worldD [OF assms(1,2)] have w: "wf_slice s (attrs hv)" and hl: "h < nxt s"
    by simp_all
  have "slice_elems s1 sl' = slice_elems s (attrs hv) @ as"
    using go_append_elems [OF ap] w e by simp
  moreover have "slice_elems s' sl' = slice_elems s1 sl'"
    by (simp add: s' slice_elems_def)
  moreover have "c \<noteq> h"
    using c hl go_append_wf(2) [OF ap] w e by auto
  ultimately show ?thesis
    using e by (simp add: s' c)
qed

lemma WithAttrs_keeps_shorter_views:
  assumes "wf_world s" and "handlers s h = Some hv" and "WithAttrs rt h as s = Returns (c, s')"
    and "handlers s g = Some gv" and "len (attrs gv) \<le> len (attrs hv)"
  shows "handlers s' g = Some gv \<and> slice_elems s' (attrs gv) = slice_elems s (attrs gv)"
proof -
  from assms(3) obtain hv' sl' s1 where hv': "handlers s h = Some hv'"
    and ap: "go_append rt (attrs hv') as s = (sl', s1)"
    and c: "c = nxt s1"
    and s': "s' = s1\<lparr>handlers := (handlers s1)(nxt s1 \<mapsto>
                 \<lparr>level = level hv', writer = writer hv', attrs = sl', group = group hv',
                  timeFormat = timeFormat hv', mu = mu hv'\<rparr>), nxt := Suc (nxt s1)\<rparr>"
    by (rule WithAttrs_unfold)
  have e: "hv' = hv" using hv' assms(2) by simp
  from wf_worldD [OF assms(1,2)] have w: "wf_slice s (attrs hv)"
    by simp
  from wf_worldD [OF assms(1,4)] have wg: "wf_slice s (attrs gv)" and gl: "g < nxt s"
    by simp_all
  have "g \<noteq> nxt s1"
    using gl go_append_wf(2) [OF ap] w e by auto
  then have "handlers s' g = Some gv"
    using assms(4) go_append_wf(3) [OF ap] w e by (simp add: s')
  moreover have "slice_elems s1 (attrs gv) = slice_elems s (attrs gv)"
    using go_append_keeps_shorter [OF ap _ wg] w e assms(5) by simp
  moreover have "slice_elems s' (attrs gv) = slice_elems s1 (attrs gv)"
    by (simp add: s' slice_elems_def)
  ultimately show ?thesis by simp
qed

lemma WithAttrs_spare_capacity_overwrites:
  assumes "wf_world s" and "handlers s p = Some pv"
    and "len (attrs pv) + length ys \<le> cap (attrs pv)" and "length xs \<le> length ys"
    and "WithAttrs rt p xs s = Returns (c1, s1)" and "WithAttrs rt p ys s1 = Returns (c2, s2)"
  shows "\<exists>cv. handlers s2 c1 = Some cv
           \<and> slice_elems s1 (attrs cv) = slice_elems s (attrs pv) @ xs
           \<and> slice_elems s2 (attrs cv) = slice_elems s (attrs pv) @ take (length xs) ys"
proof -
  let ?sl = "attrs pv"
  let ?a = "arrays s (ptr ?sl)"
  let ?a1 = "take (len ?sl) ?a @ xs @ drop (len ?sl + length xs) ?a"
  let ?a2 = "take (len ?sl) ?a1 @ ys @ drop (len ?sl + length ys) ?a1"
  let ?c1v = "\<lparr>level = level pv, writer = writer pv, attrs = ?sl\<lparr>len := len ?sl + length xs\<rparr>,
               group = group pv, timeFormat = timeFormat pv, mu = mu pv\<rparr>"
  from wf_worldD [OF assms(1,2)] have w: "len ?sl \<le> length ?a" and pl: "p < nxt s"
    by (simp_all add: wf_slice_def)
  have x: "len ?sl + length xs \<le> cap ?sl"
    using assms(3,4) by simp
  have s1: "s1 = s\<lparr>arrays := (arrays s)(ptr ?sl := ?a1),
                  handlers := (handlers s)(nxt s \<mapsto> ?c1v), nxt := Suc (nxt s)\<rparr>"
    and c1: "c1 = nxt s"
    using assms(5) assms(2) go_append_in_place [OF x, of rt s]
    by (auto simp: WithAttrs_def alloc_handler_def)
  have p1: "handlers s1 p = Some pv"
    using assms(2) pl by (simp add: s1)
  have s2: "s2 = s1\<lparr>arrays := (arrays s1)(ptr ?sl := ?a2),
                  handlers := (handlers s1)(nxt s1 \<mapsto>
                    \<lparr>level = level pv, writer = writer pv,
                     attrs = ?sl\<lparr>len := len ?sl + length ys\<rparr>,
                     group = group pv, timeFormat = timeFormat pv, mu = mu pv\<rparr>),
                  nxt := Suc (nxt s1)\<rparr>"
    using assms(6) p1 go_append_in_place [OF assms(3), of rt s1]
    by (auto simp: WithAttrs_def alloc_handler_def s1)
  have h: "handlers s2 c1 = Some ?c1v"
    by (simp add: s2 c1 s1)
  have v1: "slice_elems s1 (attrs ?c1v) = slice_elems s ?sl @ xs"
    using w by (simp add: slice_elems_def s1)
  have v2: "slice_elems s2 (attrs ?c1v) = slice_elems s ?sl @ take (length xs) ys"
    using w assms(4) by (simp add: slice_elems_def s2 s1)
  show ?thesis
    using h v1 v2 by blast
qed

text \<open>
  Claim C1. The attribute lists of a parent and of the handlers derived from it are to be
  independent. They are not: \<open>WithAttrs\<close> appends to the slice of the parent without
  copying it. Below, \<open>p\<close> carries three attributes in an array of capacity four (the
  capacities 1, 2, 4 are those the Go runtime picks). The handler \<open>c1\<close> derived from \<open>p\<close>
  with \<open>x=4\<close> logs \<open>x=4\<close>; after a sibling \<open>c2\<close> is derived from \<open>p\<close> with \<open>y=5\<close>, the same
  call on \<open>c1\<close> logs \<open>y=5\<close>.
\<close>

theorem WithAttrs_sibling_overwrite:
  "(case NewLogFormatHandler LevelInfo 7 [] (world0 buffers) of (root, s0) \<Rightarrow>
     outcome_bind (WithAttrs go_rt root [slog_String ''a'' ''1''] s0) (\<lambda>(p1, s1).
     outcome_bind (WithAttrs go_rt p1 [slog_String ''b'' ''2''] s1) (\<lambda>(p2, s2).
     outcome_bind (WithAttrs go_rt p2 [slog_String ''c'' ''3''] s2) (\<lambda>(p, s3).
     outcome_bind (WithAttrs go_rt p [slog_String ''x'' ''4''] s3) (\<lambda>(c1, s4).
     outcome_bind (Handle go_rt () c1 plain_record s4) (\<lambda>(e1, s5).
     outcome_bind (WithAttrs go_rt p [slog_String ''y'' ''5''] s5) (\<lambda>(c2, s6).
     outcome_bind (Handle go_rt () c1 plain_record s6) (\<lambda>(e2, s7).
       Returns (dests s7 7)))))))))
   = Returns (Buffer ''T INFO m a=1 b=2 c=3 x=4\<newline>T INFO m a=1 b=2 c=3 y=5\<newline>'')"
  by (simp add: NewLogFormatHandler_def alloc_handler_def world0_def WithAttrs_def go_append_def
      Handle_def mu_Lock_def mu_Unlock_def Lock_def Unlock_def writer_call_def Let_def
      slice_elems_def nil_slice_def RWMutex_zero_def buffers_def LevelInfo_def
      plain_line slog_String_def nonempty_key_def Sprintf_kv_def LF_def
      go_rt_fields nextslicecap_def plain_record_Level)

section \<open>Derivation and the lock\<close>

text \<open>The mutex is a field of the handler struct, and \<open>WithAttrs\<close> and \<open>WithGroup\<close> build a
  new struct with \<open>mu: h.mu\<close>: the derived handler holds a copy of the mutex, in the state
  the mutex of the parent had at that moment. While the mutex of the parent is held, a
  call of \<open>Handle\<close> on the parent waits, and a call on the derived handler runs to its end.\<close>

lemma WithGroup_lock_not_shared:
  assumes "wf_world s" and "handlers s h = Some hv" and "WithGroup h name s = Returns (c, s1)"
    and "level hv \<le> Level r"
  shows "c \<noteq> h \<and>
         (\<exists>s2. mu_Lock h s1 = Returns s2 \<and> Handle rt ctx h r s2 = Blocks
            \<and> (\<exists>res s3. Handle rt ctx c r s2 = Returns (res, s3)))"
proof -
  let ?cv = "\<lparr>level = level hv, writer = writer hv, attrs = attrs hv, group = name,
              timeFormat = timeFormat hv, mu = mu hv\<rparr>"
  let ?s2 = "s1\<lparr>handlers := (handlers s1)(h \<mapsto> hv\<lparr>mu := (mu hv)\<lparr>w_held := True\<rparr>\<rparr>),
                trace := trace s1 @ [EvLock h]\<rparr>"
  from wf_worldD [OF assms(1,2)] have hl: "h < nxt s" and f: "mu_free hv"
    by simp_all
  have c: "c = nxt s" and s1: "s1 = s\<lparr>handlers := (handlers s)(nxt s \<mapsto> ?cv), nxt := Suc (nxt s)\<rparr>"
    using assms(2,3) by (auto simp: WithGroup_def alloc_handler_def)
  have ne: "c \<noteq> h"
    using c hl by simp
  have h1: "handlers s1 h = Some hv"
    using assms(2) hl by (simp add: s1)
  have l: "mu_Lock h s1 = Returns ?s2"
    using h1 f by (simp add: mu_Lock_def Lock_def mu_free_def)
  have b: "Handle rt ctx h r ?s2 = Blocks"
    by (rule Handle_blocks_when_locked [where hv = "hv\<lparr>mu := (mu hv)\<lparr>w_held := True\<rparr>\<rparr>"])
       (simp_all add: assms(4))
  have hc: "handlers ?s2 c = Some ?cv"
    using ne by (simp add: s1 c)
  have "\<exists>res s3. Handle rt ctx c r ?s2 = Returns (res, s3)"
    using Handle_admitted [OF hc, of r rt ctx] f assms(4)
    by (auto simp: mu_free_def split: prod.splits)
  then show ?thesis
    using ne l b by blast
qed

lemma WithAttrs_lock_not_shared:
  assumes "wf_world s" and "handlers s h = Some hv" and "WithAttrs rt h as s = Returns (c, s1)"
    and "level hv \<le> Level r"
  shows "c \<noteq> h \<and>
         (\<exists>s2. mu_Lock h s1 = Returns s2 \<and> Handle rt ctx h r s2 = Blocks
            \<and> (\<exists>res s3. Handle rt ctx c r s2 = Returns (res, s3)))"
proof -
  from assms(3) obtain hv' sl' s0 where hv': "handlers s h = Some hv'"
    and ap: "go_append rt (attrs hv') as s = (sl', s0)"
    and c: "c = nxt s0"
    and s1: "s1 = s0\<lparr>handlers := (handlers s0)(nxt s0 \<mapsto>
                 \<lparr>level = level hv', writer = writer hv', attrs = sl', group = group hv',
                  timeFormat = timeFormat hv', mu = mu hv'\<rparr>), nxt := Suc (nxt s0)\<rparr>"
    by (rule WithAttrs_unfold)
  have e: "hv' = hv" using hv' assms(2) by simp
  let ?cv = "\<lparr>level = level hv, writer = writer hv, attrs = sl', group = group hv,
              timeFormat = timeFormat hv, mu = mu hv\<rparr>"
  let ?s2 = "s1\<lparr>handlers := (handlers s1)(h \<mapsto> hv\<lparr>mu := (mu hv)\<lparr>w_held := True\<rparr>\<rparr>),
                trace := trace s1 @ [EvLock h]\<rparr>"
  from wf_worldD [OF assms(1,2)] have hl: "h < nxt s" and f: "mu_free hv"
    and w: "wf_slice s (attrs hv)"
    by simp_all
  have ne: "c \<noteq> h"
    using c hl go_append_wf(2) [OF ap] w e by auto
  have h1: "handlers s1 h = Some hv"
    using assms(2) ne c go_append_wf(3) [OF ap] w e by (simp add: s1)
  have l: "mu_Lock h s1 = Returns ?s2"
    using h1 f by (simp add: mu_Lock_def Lock_def mu_free_def)
  have b: "Handle rt ctx h r ?s2 = Blocks"
    by (rule Handle_blocks_when_locked [where hv = "hv\<lparr>mu := (mu hv)\<lparr>w_held := True\<rparr>\<rparr>"])
       (simp_all add: assms(4))
  have hc: "handlers ?s2 c = Some ?cv"
    using ne e by (simp add: s1 c)
  have "\<exists>res s3. Handle rt ctx c r ?s2 = Returns (res, s3)"
    using Handle_admitted [OF hc, of r rt ctx] f assms(4)
    by (auto simp: mu_free_def split: prod.splits)
  then show ?thesis
    using ne l b by blast
qed

text \<open>
  Claim C2. All handlers derived from one root are to hold the same lock. They do not:
  with the mutex of the root held (address 1), \<open>Handle\<close> on the root would wait, while
  \<open>Handle\<close> on the handler derived by \<open>WithGroup\<close> (address 2) locks its own mutex and writes
  to the common destination.
\<close>

theorem derived_handler_own_lock:
  "(case NewLogFormatHandler LevelInfo 7 [] (world0 buffers) of (root, s0) \<Rightarrow>
     outcome_bind (WithGroup root ''g'' s0) (\<lambda>(child, s1).
     outcome_bind (mu_Lock root s1) (\<lambda>s2.
     outcome_bind (Handle go_rt () child plain_record s2) (\<lambda>(e, s3).
       Returns (root, child, map_option mu (handlers s2 root), map_option mu (handlers s2 child),
         Handle go_rt () root plain_record s2 = Blocks, trace s3, dests s3 7)))))
   = Returns (1, 2, Some \<lparr>w_held = True, r_count = 0\<rparr>, Some \<lparr>w_held = False, r_count = 0\<rparr>,
       True, [EvLock 1, EvLock 2, EvWrite 7 ''T INFO [g] m\<newline>'', EvUnlock 2],
       Buffer ''T INFO [g] m\<newline>'')"
  by (simp add: NewLogFormatHandler_def alloc_handler_def world0_def WithGroup_def
      Handle_def mu_Lock_def mu_Unlock_def Lock_def Unlock_def writer_call_def Let_def
      slice_elems_def nil_slice_def RWMutex_zero_def buffers_def LevelInfo_def
      plain_line LF_def go_rt_fields plain_record_Level)

text \<open>The second variant gives every derived handler a new mutex, with the same effect. In
  the first variant a handler derived while the mutex of its parent is held starts with a
  held mutex that nothing releases.\<close>

lemma derived_handler_own_lock_v2:
  "(case NewLogFormatHandler_v2 LevelInfo 7 (world0 buffers) of (root, s0) \<Rightarrow>
     outcome_bind (WithGroup_v2 root ''g'' s0) (\<lambda>(child, s1).
     outcome_bind (mu_Lock_v2 root s1) (\<lambda>s2.
     outcome_bind (Handle_v2 go_rt () child plain_record s2) (\<lambda>(e, s3).
       Returns (root, child, map_option mu_v2 (handlers s2 root),
         map_option mu_v2 (handlers s2 child),
         Handle_v2 go_rt () root plain_record s2 = Blocks, trace s3, dests s3 7)))))
   = Returns (1, 2, Some \<lparr>m_held = True\<rparr>, Some \<lparr>m_held = False\<rparr>,
       True, [EvLock 1, EvLock 2, EvWrite 7 ''T INFO [g] m\<newline>'', EvUnlock 2],
       Buffer ''T INFO [g] m\<newline>'')"
  by (simp add: NewLogFormatHandler_v2_def alloc_handler_def world0_def WithGroup_v2_def
      Handle_v2_def mu_Lock_v2_def mu_Unlock_v2_def Mutex_Lock_def Mutex_Unlock_def
      writer_call_def Let_def slice_elems_def Mutex_zero_def buffers_def LevelInfo_def
      plain_line_v2 LF_def go_rt_fields plain_record_Level)

lemma WithGroup_copies_held_lock:
  "(case NewLogFormatHandler LevelInfo 7 [] (world0 buffers) of (root, s0) \<Rightarrow>
     outcome_bind (mu_Lock root s0) (\<lambda>s1.
     outcome_bind (WithGroup root ''g'' s1) (\<lambda>(child, s2).
     outcome_bind (mu_Unlock root s2) (\<lambda>s3.
       Returns (map_option mu (handlers s3 root), map_option mu (handlers s3 child),
         Handle go_rt () child plain_record s3 = Blocks)))))
   = Returns (Some \<lparr>w_held = False, r_count = 0\<rparr>, Some \<lparr>w_held = True, r_count = 0\<rparr>, True)"
  by (simp add: NewLogFormatHandler_def alloc_handler_def world0_def WithGroup_def
      Handle_def mu_Lock_def mu_Unlock_def Lock_def Unlock_def writer_call_def Let_def
      slice_elems_def nil_slice_def RWMutex_zero_def buffers_def LevelInfo_def
      plain_line LF_def go_rt_fields plain_record_Level)

section \<open>Formatting\<close>

text \<open>
  Claim C4, as amended. For an event at or above the level of a handler whose mutex is free,
  \<open>Handle\<close> returns after exactly one write, between locking and unlocking the mutex of the
  handler, and the bytes written are: the timestamp in the time format of the handler, a
  space, the upper-cased level name, a space, the group in brackets and a space when the
  group is not empty, the message, then \<open>" key=value"\<close> for every attribute whose key is not
  empty, the attributes of the event first and those of the handler after them, each in
  their order, then a line feed. The bytes depend on the event and the configuration
  only. They are a single line when no rendered part contains a line feed.
\<close>

theorem Handle_writes_line:
  assumes "handlers s h = Some hv" and "mu_free hv" and "level hv \<le> Level r"
  shows "(\<exists>res s'. Handle rt ctx h r s = Returns (res, s')
            \<and> trace s' = trace s @
                [EvLock h,
                 EvWrite (writer hv)
                   (spec_line rt (timeFormat hv) (group hv) r
                      (filter nonempty_key (RecAttrs r @ slice_elems s (attrs hv))) @ [LF]),
                 EvUnlock h]
            \<and> dests s' = (dests s)(writer hv :=
                  fst (writer_Write rt (dests s (writer hv))
                    (spec_line rt (timeFormat hv) (group hv) r
                       (filter nonempty_key (RecAttrs r @ slice_elems s (attrs hv))) @ [LF])))
            \<and> handlers s' = handlers s \<and> arrays s' = arrays s)
         \<and> (no_LF (time_Format rt (Time r) (timeFormat hv))
              \<and> no_LF (strings_ToUpper rt (level_String rt (Level r)))
              \<and> no_LF (group hv) \<and> no_LF (Message r)
              \<and> (\<forall>a \<in> set (filter nonempty_key (RecAttrs r @ slice_elems s (attrs hv))).
                    no_LF (Key a) \<and> no_LF (value_String rt (Value a)))
            \<longrightarrow> one_line (spec_line rt (timeFormat hv) (group hv) r
                      (filter nonempty_key (RecAttrs r @ slice_elems s (attrs hv))) @ [LF]))"
proof -
  let ?line = "spec_line rt (timeFormat hv) (group hv) r
                 (filter nonempty_key (RecAttrs r @ slice_elems s (attrs hv))) @ [LF]"
  have "\<exists>res s'. Handle rt ctx h r s = Returns (res, s')
            \<and> trace s' = trace s @ [EvLock h, EvWrite (writer hv) ?line, EvUnlock h]
            \<and> dests s' = (dests s)(writer hv := fst (writer_Write rt (dests s (writer hv)) ?line))
            \<and> handlers s' = handlers s \<and> arrays s' = arrays s"
    using Handle_admitted [OF assms, of rt ctx]
    by (simp add: Handle_buf_closed split: prod.splits)
  then show ?thesis
    using no_LF_spec_line [of rt r "timeFormat hv" "group hv"
        "filter nonempty_key (RecAttrs r @ slice_elems s (attrs hv))"]
    by (simp only: one_line_snoc) blast
qed

theorem Handle_writes_line_witness:
  "handlers info_world 1 = Some info_handler \<and> mu_free info_handler
   \<and> level info_handler \<le> Level test_record
   \<and> (\<exists>res s'. Handle go_rt () 1 test_record info_world = Returns (res, s')
         \<and> trace s' = trace info_world @
             [EvLock 1,
              EvWrite 7 ''2025/01/11 12:00:00 ERROR Error occurred key=value code=123\<newline>'',
              EvUnlock 1]
         \<and> dests s' 7 = Buffer ''2025/01/11 12:00:00 ERROR Error occurred key=value code=123\<newline>'')
   \<and> one_line ''2025/01/11 12:00:00 ERROR Error occurred key=value code=123\<newline>''"
proof -
  have a: "handlers info_world 1 = Some info_handler"
    by (rule info_world_handler)
  have b: "mu_free info_handler"
    by (rule info_handler_free)
  have c: "level info_handler \<le> Level test_record"
    by (rule test_record_admitted)
  have w: "writer info_handler = 7"
    by (simp add: info_handler_def)
  have n: "no_LF ''2025/01/11 12:00:00 ERROR Error occurred key=value code=123''"
    by (simp add: LF_def)
  have l: "''2025/01/11 12:00:00 ERROR Error occurred key=value code=123\<newline>''
       = ''2025/01/11 12:00:00 ERROR Error occurred key=value code=123'' @ [LF]"
    by (simp add: LF_def)
  from Handle_writes_line [OF a b c, of go_rt "()"]
  obtain res s' where h: "Handle go_rt () 1 test_record info_world = Returns (res, s')"
    and t: "trace s' = trace info_world @
             [EvLock 1,
              EvWrite 7 (''2025/01/11 12:00:00 ERROR Error occurred key=value code=123'' @ [LF]),
              EvUnlock 1]"
    and d: "dests s' = (dests info_world)(7 :=
              fst (writer_Write go_rt (dests info_world 7)
                (''2025/01/11 12:00:00 ERROR Error occurred key=value code=123'' @ [LF])))"
    unfolding test_record_spec_line w by blast
  have "dests s' 7 = Buffer (''2025/01/11 12:00:00 ERROR Error occurred key=value code=123'' @ [LF])"
    unfolding d by (simp add: info_world_dest go_rt_fields)
  then show ?thesis
    using a b c h t n unfolding l one_line_snoc by blast
qed

text \<open>
  Claim C4, as stated, fails on an event with a two-line message and an attribute with an
  empty key: the bytes written differ from the layout that renders every attribute, and
  they are two lines.
\<close>

theorem Handle_line_counterexample:
  "Handle go_rt () 1 cex_record info_world =
     Returns (None,
       info_world\<lparr>dests := (dests info_world)(7 := Buffer ''T INFO a\<newline>b\<newline>''),
         trace := trace info_world @ [EvLock 1, EvWrite 7 ''T INFO a\<newline>b\<newline>'', EvUnlock 1]\<rparr>)
   \<and> ''T INFO a\<newline>b\<newline>'' \<noteq>
       spec_line go_rt (timeFormat info_handler) (group info_handler) cex_record
         (RecAttrs cex_record @ slice_elems info_world (attrs info_handler)) @ [LF]
   \<and> \<not> one_line ''T INFO a\<newline>b\<newline>''"
proof -
  have d: "dests info_world 7 = Buffer []"
    by (simp add: info_world_def NewLogFormatHandler_def alloc_handler_def world0_def buffers_def)
  have w: "writer info_handler = 7"
    by (simp add: info_handler_def)
  have wr: "writer_Write go_rt = dest_Write"
    by (simp add: go_rt_def)
  have 1: "Handle go_rt () 1 cex_record info_world =
     Returns (None,
       info_world\<lparr>dests := (dests info_world)(7 := Buffer ''T INFO a\<newline>b\<newline>''),
         trace := trace info_world @ [EvLock 1, EvWrite 7 ''T INFO a\<newline>b\<newline>'', EvUnlock 1]\<rparr>)"
    unfolding Handle_admitted [OF info_world_handler info_handler_free cex_record_admitted]
      info_world_attrs cex_record_line w d wr
    by simp
  have 2: "''T INFO a\<newline>b\<newline>'' \<noteq>
       spec_line go_rt (timeFormat info_handler) (group info_handler) cex_record
         (RecAttrs cex_record @ slice_elems info_world (attrs info_handler)) @ [LF]"
    by (simp add: info_world_attrs spec_line_def cex_record_def AddAttrs_def NewRecord_def
        go_rt_def info_handler_def slog_String_def
        slog_Level_String_named ascii_ToUpper_named LF_def)
  have 3: "\<not> one_line ''T INFO a\<newline>b\<newline>''"
    by (simp add: one_line_def LF_def)
  show ?thesis
    using 1 2 3 by blast
qed

text \<open>
  Claim C5. An attribute with an empty key is to be skipped. The first variant of \<open>Handle\<close>
  does so (\<open>Handle_buf_skips_empty_keys\<close>). The second variant tests no key and writes
  such an attribute as \<open>" =v"\<close>.
\<close>

theorem Handle_v2_renders_empty_key:
  "Handle_v2 go_rt () 1 empty_key_record info_world_v2 =
     Returns (None,
       info_world_v2\<lparr>dests := (dests info_world_v2)
           (7 := Buffer ''2025/01/11 12:00:00 INFO Test message =v\<newline>''),
         trace := trace info_world_v2 @
           [EvLock 1, EvWrite 7 ''2025/01/11 12:00:00 INFO Test message =v\<newline>'', EvUnlock 1]\<rparr>)"
proof -
  have d: "dests info_world_v2 7 = Buffer []"
    by (simp add: info_world_v2_def NewLogFormatHandler_v2_def alloc_handler_def world0_def
        buffers_def)
  have l: "Handle_buf_v2 go_rt
       \<lparr>level_v2 = 0, writer_v2 = 7, attrs_v2 = \<lparr>ptr = 0, len = 0, cap = 0\<rparr>,
        group_v2 = [], mu_v2 = Mutex_zero\<rparr> [] empty_key_record
     = ''2025/01/11 12:00:00 INFO Test message =v\<newline>''"
    by (simp add: Handle_buf_v2_closed spec_line_def empty_key_record_def AddAttrs_def
        NewRecord_def go_rt_def slog_String_def slog_Level_String_named ascii_ToUpper_named
        LF_def)
  have wr: "writer_Write go_rt = dest_Write"
    by (simp add: go_rt_def)
  have f: "\<not> m_held (mu_v2 \<lparr>level_v2 = 0, writer_v2 = 7, attrs_v2 = \<lparr>ptr = 0, len = 0, cap = 0\<rparr>,
        group_v2 = [], mu_v2 = Mutex_zero\<rparr>)"
    by (simp add: Mutex_zero_def)
  have lv: "level_v2 \<lparr>level_v2 = 0, writer_v2 = 7, attrs_v2 = \<lparr>ptr = 0, len = 0, cap = 0\<rparr>,
        group_v2 = [], mu_v2 = Mutex_zero\<rparr> \<le> Level empty_key_record"
    by (simp add: empty_key_record_def AddAttrs_def NewRecord_def LevelInfo_def)
  show ?thesis
    unfolding Handle_v2_admitted [OF info_world_v2_handler f lv]
    by (simp add: slice_elems_def l wr d)
qed

section \<open>Events below the level\<close>

text \<open>
  Claim C6. An event whose level is below the level of the handler: \<open>Handle\<close> returns nil
  and the store is the one it started from. No byte reaches the destination, and the
  history gains neither a write nor a lock operation.
\<close>

theorem Handle_below_level:
  assumes "handlers s h = Some hv" and "Level r < level hv"
  shows "Handle rt ctx h r s = Returns (None, s)"
  using assms by (simp add: Handle_def)

theorem Handle_below_level_witness:
  "handlers info_world 1 = Some info_handler
   \<and> Level (NewRecord ''2025/01/11 12:00:00'' LevelDebug ''Should not log''
         :: (string, slog_Value) Record) < level info_handler
   \<and> Handle go_rt () 1 (NewRecord ''2025/01/11 12:00:00'' LevelDebug ''Should not log'') info_world
       = Returns (None, info_world)"
proof -
  have a: "handlers info_world 1 = Some info_handler"
    by (rule info_world_handler)
  have b: "Level (NewRecord ''2025/01/11 12:00:00'' LevelDebug ''Should not log''
             :: (string, slog_Value) Record) < level info_handler"
    by (simp add: NewRecord_def LevelDebug_def info_handler_def)
  show ?thesis
    using a b Handle_below_level [OF a b, of go_rt "()"] by simp
qed

section \<open>Errors and totality\<close>



section \<open>The level filter, the constructor and the context\<close>



text \<open>
  Claim C9. The handler that \<open>NewLogFormatHandler\<close> allocates has the level and the writer
  given, no group, no attributes, and the time format given, or \<open>2006/01/02 15:04:05\<close>
  (year/month/day hour:minute:second on a 24-hour clock in the layout notation of Go)
  when the time format given is empty.
\<close>

theorem NewLogFormatHandler_fields:
  "(case NewLogFormatHandler lvl w tfmt s of
      (p, s') \<Rightarrow>
        (\<exists>hv. handlers s' p = Some hv \<and> level hv = lvl \<and> writer hv = w \<and> mu hv = RWMutex_zero
           \<and> group hv = [] \<and> len (attrs hv) = 0 \<and> slice_elems s' (attrs hv) = []
           \<and> (tfmt = [] \<longrightarrow> timeFormat hv = ''2006/01/02 15:04:05'')
           \<and> (tfmt \<noteq> [] \<longrightarrow> timeFormat hv = tfmt)))
   \<and> DefaultTimeFormat = ''2006/01/02 15:04:05''"
  by (simp add: NewLogFormatHandler_def alloc_handler_def DefaultTimeFormat_def nil_slice_def
      slice_elems_def)

theorem NewLogFormatHandler_fields_witness:
  "(case NewLogFormatHandler LevelInfo 7 []
           (world0 buffers :: (LogFormatHandler, slog_Value, dest) world) of
      (p, s') \<Rightarrow>
        (\<exists>hv. handlers s' p = Some hv \<and> group hv = [] \<and> slice_elems s' (attrs hv) = []
           \<and> timeFormat hv = ''2006/01/02 15:04:05''))
   \<and> (case NewLogFormatHandler LevelInfo 7 ''15:04:05''
           (world0 buffers :: (LogFormatHandler, slog_Value, dest) world) of
      (p, s') \<Rightarrow>
        (\<exists>hv. handlers s' p = Some hv \<and> group hv = [] \<and> slice_elems s' (attrs hv) = []
           \<and> timeFormat hv = ''15:04:05''))"
proof -
  have a: "''15:04:05'' \<noteq> []" by simp
  show ?thesis
    using NewLogFormatHandler_fields [of LevelInfo 7 "[]"
        "world0 buffers :: (LogFormatHandler, slog_Value, dest) world"]
      NewLogFormatHandler_fields [of LevelInfo 7 "''15:04:05''"
        "world0 buffers :: (LogFormatHandler, slog_Value, dest) world"] a
    by (fastforce split: prod.splits)
qed

text \<open>
  Claim C10. \<open>Handle\<close> and \<open>Enabled\<close> do not depend on their context argument.
\<close>

theorem context_ignored:
  "Handle rt c1 h r s = Handle rt c2 h r s \<and> Enabled c1 h lvl s = Enabled c2 h lvl s"
  by (simp add: Handle_def Enabled_def)

end
